theory Spec2Isabelle
  imports Main "HOL-Library.Code_Target_Numeral"
begin

section \<open>JavaScript values and the built-ins the chain relies on\<close>

text \<open>
  The fields of a block hold \<open>null\<close>, a number or a string. The numbers the code stores
  and computes with are integers (heights, the constructor's \<open>0\<close>, clock readings and the
  timestamps parsed from messages) of a size at which JavaScript's numbers are exact, so
  they are modelled as \<open>int\<close>; strings are lists of characters. A field that the code
  assigns \<open>null\<close>, a number or a string (\<open>hash\<close>, \<open>time\<close>, \<open>previousBlockHash\<close>) may also be
  set, from outside, to one of the numbers \<open>NaN\<close>, \<open>Infinity\<close> and \<open>-Infinity\<close>.
\<close>

datatype jsval = JNull | JNum int | JStr string | JNaN | JInfinity | JNegInfinity

abbreviation dquote :: char where "dquote \<equiv> CHR 0x22"
abbreviation bslash :: char where "bslash \<equiv> CHR 0x5C"

subsection \<open>\<open>Number.prototype.toString\<close> on integers\<close>

definition digit_char :: "nat \<Rightarrow> char" where
  "digit_char d = char_of (48 + d)"

fun nat_toString :: "nat \<Rightarrow> string" where
  "nat_toString n =
     (if n < 10 then [digit_char n] else nat_toString (n div 10) @ [digit_char (n mod 10)])"

declare nat_toString.simps [simp del]

definition toString :: "int \<Rightarrow> string" where
  "toString i = (if i < 0 then CHR ''-'' # nat_toString (nat (- i)) else nat_toString (nat i))"

text \<open>\<open>s.slice(0, -3)\<close>: everything but the last three characters, the empty string when
  \<open>s\<close> has three characters or fewer.\<close>

definition slice_0_m3 :: "string \<Rightarrow> string" where
  "slice_0_m3 s = take (length s - 3) s"

text \<open>\<open>new Date().getTime().toString().slice(0, -3)\<close>, the clock reading \<open>now\<close> being in
  milliseconds.\<close>

definition time_string :: "int \<Rightarrow> string" where
  "time_string now = slice_0_m3 (toString now)"

subsection \<open>\<open>JSON.stringify\<close> on strings, numbers and \<open>null\<close>\<close>

text \<open>A string is quoted and escaped, a finite number is written as \<open>toString\<close> writes it,
  and \<open>null\<close> as well as the numbers that are not finite are written \<open>null\<close>.\<close>

definition hex_digit :: "nat \<Rightarrow> char" where
  "hex_digit d = ''0123456789abcdef'' ! d"

definition json_escape :: "char \<Rightarrow> string" where
  "json_escape c =
     (if c = dquote then [bslash, dquote]
      else if c = bslash then [bslash, bslash]
      else if c = CHR 0x08 then [bslash, CHR ''b'']
      else if c = CHR 0x0C then [bslash, CHR ''f'']
      else if c = CHR 0x0A then [bslash, CHR ''n'']
      else if c = CHR 0x0D then [bslash, CHR ''r'']
      else if c = CHR 0x09 then [bslash, CHR ''t'']
      else if (of_char c :: nat) < 32 then
        [bslash, CHR ''u'', CHR ''0'', CHR ''0'',
         hex_digit (of_char c div 16), hex_digit (of_char c mod 16)]
      else [c])"

definition json_quote :: "string \<Rightarrow> string" where
  "json_quote s = dquote # concat (map json_escape s) @ [dquote]"

fun json_value :: "jsval \<Rightarrow> string" where
  "json_value JNull = ''null''"
| "json_value (JNum n) = toString n"
| "json_value (JStr s) = json_quote s"
| "json_value JNaN = ''null''"
| "json_value JInfinity = ''null''"
| "json_value JNegInfinity = ''null''"

definition json_member :: "string \<Rightarrow> string \<Rightarrow> string" where
  "json_member k v = json_quote k @ '':'' @ v"

section \<open>Block\<close>

record block =
  hash :: jsval
  height :: int
  body :: string
  time :: jsval
  previousBlockHash :: jsval

text \<open>The constructor. \<open>encoded\<close> is \<open>Buffer.from(JSON.stringify(data)).toString('hex')\<close>,
  computed by the caller of this definition.\<close>

definition new_Block :: "string \<Rightarrow> block" where
  "new_Block encoded =
     \<lparr>hash = JNull, height = 0, body = encoded, time = JNum 0, previousBlockHash = JNull\<rparr>"

text \<open>\<open>JSON.stringify(block)\<close>: the own properties in insertion order.\<close>

definition JSON_stringify :: "block \<Rightarrow> string" where
  "JSON_stringify b =
     ''{'' @ json_member ''hash'' (json_value (hash b))
     @ '','' @ json_member ''height'' (toString (height b))
     @ '','' @ json_member ''body'' (json_quote (body b))
     @ '','' @ json_member ''time'' (json_value (time b))
     @ '','' @ json_member ''previousBlockHash'' (json_value (previousBlockHash b))
     @ ''}''"

text \<open>\<open>validate()\<close>. The digest \<open>SHA256(_).toString()\<close> is the parameter \<open>sha256\<close>.\<close>

definition validate :: "(string \<Rightarrow> string) \<Rightarrow> block \<Rightarrow> bool" where
  "validate sha256 self =
     (let currentHash = hash self;
          blockString = JSON_stringify (self\<lparr>hash := JNull\<rparr>);
          recalculatedHash = sha256 blockString
      in if currentHash = JStr recalculatedHash then True else False)"

text \<open>Settled state of a promise; \<open>Pending\<close> is a promise that is never settled. A rejection
  carries an \<open>Error\<close> object with its message, the \<open>SyntaxError\<close> thrown by \<open>JSON.parse\<close>,
  or a plain string.\<close>

datatype reason = Error string | SyntaxError | Message string

datatype 'a promise = Resolved 'a | Rejected reason | Pending

text \<open>Decoded payloads: what \<open>JSON.parse\<close> returns (numbers restricted to integers).\<close>

datatype json =
  J_null | J_bool bool | J_num int | J_str string | J_arr "json list"
  | J_obj "(string \<times> json) list"

text \<open>\<open>getBData()\<close>. The module \<open>hex2ascii\<close> and \<open>JSON.parse\<close> are parameters; \<open>JSON_parse\<close>
  returns \<open>None\<close> where \<open>JSON.parse\<close> throws. A throw inside the promise executor rejects the
  promise with the thrown value.\<close>

definition getBData ::
  "(string \<Rightarrow> string) \<Rightarrow> (string \<Rightarrow> json option) \<Rightarrow> block \<Rightarrow> json promise" where
  "getBData hex2ascii JSON_parse self =
     (let encodedData = body self;
          decodedData = hex2ascii encodedData
      in case JSON_parse decodedData of
           None \<Rightarrow> Rejected SyntaxError
         | Some blockObject \<Rightarrow>
             if height self = 0 then Rejected (Error ''Genesis block doesn't contain data.'')
             else Resolved blockObject)"

section \<open>Blockchain\<close>

record blockchain =
  chain :: "block list"
  chain_height :: int

text \<open>\<open>validateChain()\<close>: the \<open>for\<close> loop over the indices of \<open>chain\<close>.\<close>

function validateChain_loop ::
  "(string \<Rightarrow> string) \<Rightarrow> block list \<Rightarrow> nat \<Rightarrow> string list \<Rightarrow> string list" where
  "validateChain_loop sha256 c i errorLog =
     (if i < length c then
        let b = c ! i;
            isValid = validate sha256 b
        in validateChain_loop sha256 c (i + 1)
             (if isValid = False
              then errorLog @ [''Block '' @ toString (height b) @ '' is not valid.'']
              else errorLog)
      else errorLog)"
  by pat_completeness auto
termination
  by (relation "measure (\<lambda>(sha256, c, i, errorLog). length c - i)") auto

declare validateChain_loop.simps [simp del]

definition validateChain :: "(string \<Rightarrow> string) \<Rightarrow> block list \<Rightarrow> string list" where
  "validateChain sha256 c = validateChain_loop sha256 c 0 []"

text \<open>\<open>_addBlock(block)\<close>, with the clock reading \<open>now\<close> (milliseconds). It returns how the
  promise settles and the chain object after the call.\<close>

definition addBlock ::
  "(string \<Rightarrow> string) \<Rightarrow> int \<Rightarrow> block \<Rightarrow> blockchain \<Rightarrow> block promise \<times> blockchain" where
  "addBlock sha256 now block0 self =
     (if length (chain self) = 0 then
        let b1 = block0\<lparr>height := 0\<rparr>;
            b2 = b1\<lparr>time := JStr (time_string now)\<rparr>;
            b3 = b2\<lparr>hash := JStr (sha256 (JSON_stringify b2))\<rparr>;
            self1 = self\<lparr>chain := chain self @ [b3]\<rparr>;
            self2 = self1\<lparr>chain_height := 0\<rparr>
        in (Resolved b3, self2)
      else
        let previousBlock = last (chain self);
            b1 = block0\<lparr>height := height previousBlock + 1\<rparr>;
            b2 = b1\<lparr>previousBlockHash := hash previousBlock\<rparr>;
            b3 = b2\<lparr>time := JStr (time_string now)\<rparr>;
            b4 = b3\<lparr>hash := JStr (sha256 (JSON_stringify b3))\<rparr>;
            self1 = self\<lparr>chain := chain self @ [b4]\<rparr>;
            self2 = self1\<lparr>chain_height := height b4\<rparr>;
            validationErrors = validateChain sha256 (chain self2)
        in if length validationErrors = 0 then (Resolved b4, self2)
           else (Rejected (Error ''Chain validation failed.''), self2))"

text \<open>The constructor followed by \<open>initializeChain()\<close>. \<open>encode\<close> is
  \<open>Buffer.from(JSON.stringify(data)).toString('hex')\<close>.\<close>

definition genesis_data :: json where
  "genesis_data = J_obj [(''data'', J_str ''Genesis Block'')]"

definition initializeChain ::
  "(string \<Rightarrow> string) \<Rightarrow> (json \<Rightarrow> string) \<Rightarrow> int \<Rightarrow> blockchain \<Rightarrow> blockchain" where
  "initializeChain sha256 encode now self =
     (if chain_height self = - 1
      then snd (addBlock sha256 now (new_Block (encode genesis_data)) self)
      else self)"

definition blank_Blockchain :: blockchain where
  "blank_Blockchain = \<lparr>chain = [], chain_height = - 1\<rparr>"

definition new_Blockchain :: "(string \<Rightarrow> string) \<Rightarrow> (json \<Rightarrow> string) \<Rightarrow> int \<Rightarrow> blockchain" where
  "new_Blockchain sha256 encode now = initializeChain sha256 encode now blank_Blockchain"

text \<open>A run of appends of freshly constructed blocks, each with its clock reading and the
  encoding of its payload.\<close>

fun addBlocks :: "(string \<Rightarrow> string) \<Rightarrow> (int \<times> string) list \<Rightarrow> blockchain \<Rightarrow> blockchain" where
  "addBlocks sha256 [] self = self"
| "addBlocks sha256 ((now, encoded) # rest) self =
     addBlocks sha256 rest (snd (addBlock sha256 now (new_Block encoded) self))"

subsection \<open>Ownership challenge\<close>

text \<open>\<open>str.split(':')\<close> and the read of index 1, which is \<open>undefined\<close> when the message has
  no colon.\<close>

fun split_on :: "char \<Rightarrow> string \<Rightarrow> string list" where
  "split_on sep [] = [[]]"
| "split_on sep (x # xs) =
     (if x = sep then [] # split_on sep xs
      else case split_on sep xs of
             [] \<Rightarrow> [[x]]
           | part # parts \<Rightarrow> (x # part) # parts)"

definition index_1 :: "string list \<Rightarrow> string option" where
  "index_1 parts = (if 1 < length parts then Some (parts ! 1) else None)"

text \<open>\<open>parseInt(x)\<close> with no radix: leading white space is skipped, a sign is read, a prefix
  \<open>0x\<close> selects radix 16, and the longest run of digits is the value; \<open>None\<close> is \<open>NaN\<close>.
  \<open>undefined\<close> is converted to the string \<open>undefined\<close> first.\<close>

definition is_whitespace :: "char \<Rightarrow> bool" where
  "is_whitespace c =
     (c \<in> set [CHR 0x09, CHR 0x0A, CHR 0x0B, CHR 0x0C, CHR 0x0D, CHR 0x20, CHR 0xA0])"

definition radix_digit :: "nat \<Rightarrow> char \<Rightarrow> nat option" where
  "radix_digit R c =
     (let n = (of_char c :: nat);
          v = (if 48 \<le> n \<and> n \<le> 57 then Some (n - 48)
               else if 97 \<le> n \<and> n \<le> 122 then Some (n - 87)
               else if 65 \<le> n \<and> n \<le> 90 then Some (n - 55)
               else None)
      in case v of None \<Rightarrow> None | Some d \<Rightarrow> if d < R then Some d else None)"

definition parse_digits :: "nat \<Rightarrow> string \<Rightarrow> nat option" where
  "parse_digits R s =
     (let Z = takeWhile (\<lambda>c. radix_digit R c \<noteq> None) s
      in if Z = [] then None
         else Some (foldl (\<lambda>a c. case radix_digit R c of None \<Rightarrow> a | Some d \<Rightarrow> a * R + d) 0 Z))"

definition parseInt :: "string option \<Rightarrow> int option" where
  "parseInt x =
     (let inputString = (case x of None \<Rightarrow> ''undefined'' | Some str \<Rightarrow> str);
          S = dropWhile is_whitespace inputString;
          sign = (if S \<noteq> [] \<and> hd S = CHR ''-'' then - 1 else (1 :: int));
          S1 = (if S \<noteq> [] \<and> (hd S = CHR ''+'' \<or> hd S = CHR ''-'') then tl S else S);
          hex = (take 2 S1 = ''0x'' \<or> take 2 S1 = ''0X'');
          R = (if hex then 16 else 10);
          S2 = (if hex then drop 2 S1 else S1)
      in case parse_digits R S2 of None \<Rightarrow> None | Some n \<Rightarrow> Some (sign * int n))"

text \<open>\<open>currentTime - timeInMessage > 300\<close>; a comparison with \<open>NaN\<close> is false.\<close>

definition elapsed_gt_300 :: "int option \<Rightarrow> int option \<Rightarrow> bool" where
  "elapsed_gt_300 currentTime timeInMessage =
     (case (currentTime, timeInMessage) of
        (Some c, Some t) \<Rightarrow> c - t > 300
      | _ \<Rightarrow> False)"

definition requestMessageOwnershipVerification :: "int \<Rightarrow> string \<Rightarrow> string" where
  "requestMessageOwnershipVerification now address =
     address @ '':'' @ time_string now @ '':starRegistry''"

text \<open>\<open>submitStar(address, message, signature, star)\<close>. \<open>verify\<close> is
  \<open>bitcoinMessage.verify\<close>, \<open>None\<close> where it throws; \<open>now\<close> is the clock read by \<open>submitStar\<close>
  and \<open>now_seal\<close> the one read by \<open>_addBlock\<close>. The result is how the promise settles, the
  calls made to the verifier, and the chain object after the call. The executor is an
  \<open>async\<close> function without a handler around it: when the verifier throws or \<open>_addBlock\<close>
  rejects, the promise of \<open>submitStar\<close> is never settled.\<close>

definition submitStar ::
  "(string \<Rightarrow> string) \<Rightarrow> (string \<Rightarrow> string \<Rightarrow> string \<Rightarrow> bool option) \<Rightarrow> (json \<Rightarrow> string)
   \<Rightarrow> int \<Rightarrow> int \<Rightarrow> string \<Rightarrow> string \<Rightarrow> string \<Rightarrow> json \<Rightarrow> blockchain
   \<Rightarrow> block promise \<times> (string \<times> string \<times> string) list \<times> blockchain" where
  "submitStar sha256 verify encode now now_seal address message signature star self =
     (let timeInMessage = parseInt (index_1 (split_on CHR '':'' message));
          currentTime = parseInt (Some (time_string now))
      in if elapsed_gt_300 currentTime timeInMessage
         then (Rejected (Message ''5 miutes have passed''), [], self)
         else
           case verify message address signature of
             None \<Rightarrow> (Pending, [(message, address, signature)], self)
           | Some isValid \<Rightarrow>
               if \<not> isValid
               then (Rejected (Message ''Error detected with signature''),
                     [(message, address, signature)], self)
               else
                 let newBlock = new_Block (encode (J_obj
                        [(''address'', J_str address), (''message'', J_str message),
                         (''signature'', J_str signature), (''star'', star)]))
                 in case addBlock sha256 now_seal newBlock self of
                      (Resolved b, self') \<Rightarrow> (Resolved b, [(message, address, signature)], self')
                    | (Rejected e, self') \<Rightarrow> (Pending, [(message, address, signature)], self')
                    | (Pending, self') \<Rightarrow> (Pending, [(message, address, signature)], self'))"

subsection \<open>Query by wallet address\<close>

text \<open>Truthiness of a decoded value and the read of a property of it.\<close>

fun truthy :: "json \<Rightarrow> bool" where
  "truthy J_null = False"
| "truthy (J_bool b) = b"
| "truthy (J_num n) = (n \<noteq> 0)"
| "truthy (J_str s) = (s \<noteq> [])"
| "truthy (J_arr xs) = True"
| "truthy (J_obj kvs) = True"

fun property :: "json \<Rightarrow> string \<Rightarrow> json option" where
  "property (J_obj kvs) k = map_of kvs k"
| "property v k = None"

text \<open>
  \<open>getStarsByWalletAddress(address)\<close>. \<open>forEach\<close> starts one \<open>async\<close> callback per block and
  drops the promise it returns. A callback runs up to its \<open>await\<close>: it calls \<open>getBData()\<close> and
  is suspended, its continuation queued as a microtask. \<open>resolve(stars)\<close> runs when
  \<open>forEach\<close> returns, before any continuation. The state records the array \<open>stars\<close>, the
  suspended callbacks with the promise each awaits, the contents of \<open>stars\<close> when the
  returned promise was resolved, and the rejections no handler received.
\<close>

record query_state =
  stars :: "json list"
  microtasks :: "json promise list"
  resolved_with :: "json list option"
  unhandled :: "reason list"

definition callback_start ::
  "(string \<Rightarrow> string) \<Rightarrow> (string \<Rightarrow> json option) \<Rightarrow> block \<Rightarrow> query_state \<Rightarrow> query_state" where
  "callback_start hex2ascii JSON_parse b st =
     st\<lparr>microtasks := microtasks st @ [getBData hex2ascii JSON_parse b]\<rparr>"

definition callback_resume :: "string \<Rightarrow> json promise \<Rightarrow> query_state \<Rightarrow> query_state" where
  "callback_resume address awaited st =
     (case awaited of
        Resolved data \<Rightarrow>
          if truthy data \<and> property data ''address'' = Some (J_str address)
          then st\<lparr>stars := stars st @ [data]\<rparr>
          else st
      | Rejected e \<Rightarrow> st\<lparr>unhandled := unhandled st @ [e]\<rparr>
      | Pending \<Rightarrow> st)"

definition getStarsByWalletAddress ::
  "(string \<Rightarrow> string) \<Rightarrow> (string \<Rightarrow> json option) \<Rightarrow> string \<Rightarrow> block list \<Rightarrow> query_state" where
  "getStarsByWalletAddress hex2ascii JSON_parse address c =
     (let st0 = \<lparr>stars = [], microtasks = [], resolved_with = None, unhandled = []\<rparr>;
          st1 = foldl (\<lambda>st b. callback_start hex2ascii JSON_parse b st) st0 c
      in st1\<lparr>resolved_with := Some (stars st1)\<rparr>)"

definition run_microtasks :: "string \<Rightarrow> query_state \<Rightarrow> query_state" where
  "run_microtasks address st =
     foldl (\<lambda>s awaited. callback_resume address awaited s) (st\<lparr>microtasks := []\<rparr>) (microtasks st)"

section \<open>Auxiliary notions for the statements\<close>

text \<open>\<open>typeof v === 'number'\<close>.\<close>

fun is_number :: "jsval \<Rightarrow> bool" where
  "is_number JNull = False"
| "is_number (JStr s) = False"
| "is_number v = True"

text \<open>The value \<open>JSON.parse\<close> reads back from what \<open>JSON.stringify\<close> writes for a value:
  \<open>NaN\<close>, \<open>Infinity\<close> and \<open>-Infinity\<close> come back as \<open>null\<close>, every other value as itself.\<close>

fun as_json :: "jsval \<Rightarrow> jsval" where
  "as_json JNaN = JNull"
| "as_json JInfinity = JNull"
| "as_json JNegInfinity = JNull"
| "as_json v = v"

text \<open>The entry \<open>validateChain\<close> logs for a block.\<close>

definition invalid_entry :: "block \<Rightarrow> string" where
  "invalid_entry b = ''Block '' @ toString (height b) @ '' is not valid.''"

text \<open>Characters of a rendered integer, and the value of a run of decimal digits.\<close>

definition is_decimal_digit :: "char \<Rightarrow> bool" where
  "is_decimal_digit c = (48 \<le> (of_char c :: nat) \<and> (of_char c :: nat) \<le> 57)"

definition is_number_char :: "char \<Rightarrow> bool" where
  "is_number_char c = (is_decimal_digit c \<or> c = CHR ''-'')"

definition decimal_value :: "string \<Rightarrow> nat" where
  "decimal_value s = foldl (\<lambda>a c. a * 10 + (of_char c - 48)) 0 s"

text \<open>The link structure of a chain: heights count from 0, the first block has no
  predecessor, every other block names the hash of the block before it.\<close>

definition hash_linked :: "block list \<Rightarrow> bool" where
  "hash_linked c =
     list_all (\<lambda>i. height (c ! i) = int i
                 \<and> (if i = 0 then previousBlockHash (c ! i) = JNull
                    else previousBlockHash (c ! i) = hash (c ! (i - 1))))
       [0..<length c]"

section \<open>Sample collaborators\<close>

text \<open>
  The digest, the payload codec and the signature verifier are parameters of the
  definitions above. To evaluate the definitions on concrete chains, the following small
  functions are used in their place: a checksum for the digest, a decoder of pairs of
  hexadecimal digits, the JSON codec restricted to four payloads (with the hexadecimal
  encodings Node.js produces for them), and a verifier that accepts every signature but
  \<open>forged\<close>.
\<close>

definition sample_digest :: "string \<Rightarrow> string" where
  "sample_digest s = toString (foldl (\<lambda>h c. (h * 31 + of_char c) mod 1000003) 7 s)"

definition hex_value :: "char \<Rightarrow> nat" where
  "hex_value c = (case radix_digit 16 c of None \<Rightarrow> 0 | Some d \<Rightarrow> d)"

fun sample_hex2ascii :: "string \<Rightarrow> string" where
  "sample_hex2ascii (a # b # rest) = char_of (hex_value a * 16 + hex_value b) # sample_hex2ascii rest"
| "sample_hex2ascii rest = []"

definition star_A1 :: json where
  "star_A1 = J_obj [(''address'', J_str ''A''), (''message'', J_str ''A:5:starRegistry''),
                    (''signature'', J_str ''s1''), (''star'', J_str ''Polaris'')]"

definition star_A2 :: json where
  "star_A2 = J_obj [(''address'', J_str ''A''), (''message'', J_str ''A:6:starRegistry''),
                    (''signature'', J_str ''s2''), (''star'', J_str ''Vega'')]"

definition star_B :: json where
  "star_B = J_obj [(''address'', J_str ''B''), (''message'', J_str ''B:7:starRegistry''),
                   (''signature'', J_str ''s3''), (''star'', J_str ''Rigel'')]"

definition sample_codec :: "(json \<times> string) list" where
  "sample_codec =
     [(genesis_data, ''7b2264617461223a2247656e6573697320426c6f636b227d''),
      (star_A1, ''7b2261646472657373223a2241222c226d657373616765223a22413a353a737461725265676973747279222c227369676e6174757265223a227331222c2273746172223a22506f6c61726973227d''),
      (star_A2, ''7b2261646472657373223a2241222c226d657373616765223a22413a363a737461725265676973747279222c227369676e6174757265223a227332222c2273746172223a2256656761227d''),
      (star_B, ''7b2261646472657373223a2242222c226d657373616765223a22423a373a737461725265676973747279222c227369676e6174757265223a227333222c2273746172223a22526967656c227d'')]"

definition sample_encode :: "json \<Rightarrow> string" where
  "sample_encode v = (case map_of sample_codec v of None \<Rightarrow> [] | Some encoded \<Rightarrow> encoded)"

definition sample_JSON_parse :: "string \<Rightarrow> json option" where
  "sample_JSON_parse s = map_of (map (\<lambda>(v, encoded). (sample_hex2ascii encoded, v)) sample_codec) s"

definition sample_verify :: "string \<Rightarrow> string \<Rightarrow> string \<Rightarrow> bool option" where
  "sample_verify message address signature = Some (signature \<noteq> ''forged'')"

section \<open>Lemmas about the built-ins and the serialisation\<close>

lemma validateChain_loop_eq:
  "validateChain_loop H c i acc =
     acc @ map invalid_entry (filter (\<lambda>b. \<not> validate H b) (drop i c))"
proof (induction H c i acc rule: validateChain_loop.induct)
  case (1 H c i acc)
  show ?case
  proof (cases "i < length c")
    case True
    then have d: "drop i c = c ! i # drop (Suc i) c"
      by (simp add: Cons_nth_drop_Suc)
    show ?thesis
      using True "1.IH"[OF True refl refl]
      by (subst validateChain_loop.simps) (simp add: d Let_def invalid_entry_def)
  next
    case False
    then show ?thesis
      by (subst validateChain_loop.simps) simp
  qed
qed

lemma validateChain_eq:
  "validateChain H c = map invalid_entry (filter (\<lambda>b. \<not> validate H b) c)"
  by (simp add: validateChain_def validateChain_loop_eq)

lemma validateChain_append:
  "validateChain H (xs @ ys) = validateChain H xs @ validateChain H ys"
  by (simp add: validateChain_eq)

lemma validate_sealed:
  "hash b = JNull \<Longrightarrow> validate H (b\<lparr>hash := JStr (H (JSON_stringify b))\<rparr>)"
proof -
  assume h: "hash b = JNull"
  have "b\<lparr>hash := JNull\<rparr> = b" using h by simp
  then show ?thesis by (simp add: validate_def)
qed

lemma addBlock_chain:
  "chain (snd (addBlock H now b bc)) = chain bc @ [last (chain (snd (addBlock H now b bc)))]"
  by (simp add: addBlock_def Let_def)

lemma addBlock_validate_last:
  "hash b = JNull \<Longrightarrow> validate H (last (chain (snd (addBlock H now b bc))))"
  by (simp add: addBlock_def Let_def validate_sealed)

lemma digit_char_decimal: "d < 10 \<Longrightarrow> is_decimal_digit (digit_char d)"
  by (simp add: is_decimal_digit_def digit_char_def)

lemma of_char_digit_char: "d < 10 \<Longrightarrow> (of_char (digit_char d) :: nat) = 48 + d"
  by (simp add: digit_char_def)

lemma nat_toString_step:
  "10 \<le> n \<Longrightarrow> nat_toString n = nat_toString (n div 10) @ [digit_char (n mod 10)]"
  by (subst nat_toString.simps) simp

lemma nat_toString_small: "n < 10 \<Longrightarrow> nat_toString n = [digit_char n]"
  by (subst nat_toString.simps) simp

lemma nat_toString_digits: "\<forall>c \<in> set (nat_toString n). is_decimal_digit c"
proof (induction n rule: nat_toString.induct)
  case (1 n)
  show ?case
  proof (cases "n < 10")
    case True
    then show ?thesis by (simp add: nat_toString_small digit_char_decimal)
  next
    case False
    then show ?thesis using 1 by (simp add: nat_toString_step digit_char_decimal)
  qed
qed

lemma nat_toString_nonempty: "nat_toString n \<noteq> []"
  by (subst nat_toString.simps) simp

lemma decimal_value_nat_toString: "decimal_value (nat_toString n) = n"
proof (induction n rule: nat_toString.induct)
  case (1 n)
  show ?case
  proof (cases "n < 10")
    case True
    then show ?thesis by (simp add: nat_toString_small decimal_value_def of_char_digit_char)
  next
    case False
    then have "decimal_value (nat_toString (n div 10)) = n div 10" using 1 by simp
    then show ?thesis using False
      by (simp add: nat_toString_step decimal_value_def of_char_digit_char)
  qed
qed

lemma nat_toString_inj: "nat_toString m = nat_toString n \<Longrightarrow> m = n"
  by (metis decimal_value_nat_toString)

lemma minus_not_digit: "\<not> is_decimal_digit (CHR ''-'')"
  by (simp add: is_decimal_digit_def)

lemma toString_inj: "toString i = toString j \<Longrightarrow> i = j"
proof -
  assume e: "toString i = toString j"
  have hd_dig: "\<And>n. hd (nat_toString n) \<noteq> CHR ''-''"
    using nat_toString_digits nat_toString_nonempty minus_not_digit
    by (metis hd_in_set)
  show ?thesis
  proof (cases "i < 0")
    case True
    note i = this
    show ?thesis
    proof (cases "j < 0")
      case True
      then have "nat (- i) = nat (- j)" using e i by (simp add: toString_def nat_toString_inj)
      then show ?thesis using i True by simp
    next
      case False
      then have "CHR ''-'' # nat_toString (nat (- i)) = nat_toString (nat j)"
        using e i by (simp add: toString_def)
      then have "hd (nat_toString (nat j)) = CHR ''-''" by (metis list.sel(1))
      then show ?thesis using hd_dig by blast
    qed
  next
    case False
    note i = this
    show ?thesis
    proof (cases "j < 0")
      case True
      then have "CHR ''-'' # nat_toString (nat (- j)) = nat_toString (nat i)"
        using e i by (simp add: toString_def)
      then have "hd (nat_toString (nat i)) = CHR ''-''" by (metis list.sel(1))
      then show ?thesis using hd_dig by blast
    next
      case False
      then have "nat i = nat j" using e i by (simp add: toString_def nat_toString_inj)
      then show ?thesis using i False by simp
    qed
  qed
qed

lemma toString_number_chars: "\<forall>c \<in> set (toString i). is_number_char c"
  using nat_toString_digits by (auto simp: toString_def is_number_char_def)

lemma toString_nonempty: "toString i \<noteq> []"
  by (simp add: toString_def nat_toString_nonempty)

lemma run_delimited:
  assumes "xs @ c # r = ys @ d # r'"
    and "\<forall>x \<in> set xs. P x" and "\<forall>y \<in> set ys. P y" and "\<not> P c" and "\<not> P d"
  shows "xs = ys \<and> c # r = d # r'"
proof -
  have "takeWhile P (xs @ c # r) = xs" using assms(2,4) by (simp add: takeWhile_append2)
  moreover have "takeWhile P (ys @ d # r') = ys" using assms(3,5) by (simp add: takeWhile_append2)
  ultimately have "xs = ys" using assms(1) by simp
  then show ?thesis using assms(1) by simp
qed

lemma time_string_seconds:
  assumes "1000 \<le> now"
  shows "time_string now = toString (now div 1000)"
proof -
  define n where "n = nat now"
  have n: "1000 \<le> n" "now = int n" using assms by (simp_all add: n_def)
  have s1: "nat_toString n = nat_toString (n div 10) @ [digit_char (n mod 10)]"
    using n by (simp add: nat_toString_step)
  have s2: "nat_toString (n div 10) = nat_toString (n div 10 div 10) @ [digit_char (n div 10 mod 10)]"
    using n by (simp add: nat_toString_step)
  have s3: "nat_toString (n div 10 div 10) =
      nat_toString (n div 10 div 10 div 10) @ [digit_char (n div 10 div 10 mod 10)]"
    using n by (simp add: nat_toString_step)
  have d: "n div 10 div 10 div 10 = n div 1000" by (simp add: div_mult2_eq[symmetric])
  have "slice_0_m3 (nat_toString n) = nat_toString (n div 1000)"
    unfolding slice_0_m3_def by (subst s1, subst s2, subst s3, subst s1, subst s2, subst s3) (simp add: d)
  moreover have "nat (now div 1000) = n div 1000" using n by (simp add: nat_div_distrib)
  ultimately show ?thesis using n
    by (simp add: time_string_def toString_def)
qed

lemma hex_digit_inj: "d < 16 \<Longrightarrow> e < 16 \<Longrightarrow> hex_digit d = hex_digit e \<Longrightarrow> d = e"
proof -
  assume a: "d < 16" "e < 16" "hex_digit d = hex_digit e"
  have "distinct ''0123456789abcdef''" by simp
  moreover have "length ''0123456789abcdef'' = 16" by simp
  ultimately show ?thesis using a unfolding hex_digit_def
    by (metis nth_eq_iff_index_eq)
qed

lemma json_escape_nonempty: "json_escape c \<noteq> []"
  by (simp add: json_escape_def)

lemma json_escape_hd: "hd (json_escape c) \<noteq> dquote"
  by (simp add: json_escape_def)

lemma json_escape_shape:
  "(json_escape c = [c] \<and> c \<noteq> bslash \<and> c \<noteq> dquote)
   \<or> (\<exists>e. json_escape c = [bslash, e] \<and> e \<noteq> CHR ''u'')
   \<or> (json_escape c = [bslash, CHR ''u'', CHR ''0'', CHR ''0'',
         hex_digit (of_char c div 16), hex_digit (of_char c mod 16)] \<and> (of_char c :: nat) < 32)"
  by (simp add: json_escape_def)

lemma json_escape_short_inj:
  "json_escape a = [bslash, e] \<Longrightarrow> json_escape b = [bslash, e] \<Longrightarrow> a = b"
  by (auto simp: json_escape_def split: if_splits)

lemma json_escape_unicode_inj:
  assumes "(of_char a :: nat) < 32" "(of_char b :: nat) < 32"
    and "hex_digit (of_char a div 16) = hex_digit (of_char b div 16)"
    and "hex_digit (of_char a mod 16) = hex_digit (of_char b mod 16)"
  shows "a = b"
proof -
  have "(of_char a :: nat) div 16 = of_char b div 16"
    using assms(1,2,3) by (intro hex_digit_inj) auto
  moreover have "(of_char a :: nat) mod 16 = of_char b mod 16"
    using assms(4) by (intro hex_digit_inj) auto
  ultimately have "(of_char a :: nat) = of_char b"
    by (metis div_mult_mod_eq)
  then show ?thesis by simp
qed

lemma json_escape_prefix_code:
  assumes "json_escape a @ X = json_escape b @ Y"
  shows "a = b \<and> X = Y"
proof -
  consider (pa) "json_escape a = [a]" "a \<noteq> bslash"
    | (sa) e where "json_escape a = [bslash, e]" "e \<noteq> CHR ''u''"
    | (ua) "json_escape a = [bslash, CHR ''u'', CHR ''0'', CHR ''0'',
         hex_digit (of_char a div 16), hex_digit (of_char a mod 16)]" "(of_char a :: nat) < 32"
    using json_escape_shape[of a] by blast
  then show ?thesis
  proof cases
    case pa
    consider (pb) "json_escape b = [b]" "b \<noteq> bslash"
      | (sb) e where "json_escape b = [bslash, e]"
      | (ub) "json_escape b = [bslash, CHR ''u'', CHR ''0'', CHR ''0'',
         hex_digit (of_char b div 16), hex_digit (of_char b mod 16)]"
      using json_escape_shape[of b] by blast
    then show ?thesis using assms pa by cases auto
  next
    case sa
    consider (pb) "json_escape b = [b]" "b \<noteq> bslash"
      | (sb) e' where "json_escape b = [bslash, e']" "e' \<noteq> CHR ''u''"
      | (ub) "json_escape b = [bslash, CHR ''u'', CHR ''0'', CHR ''0'',
         hex_digit (of_char b div 16), hex_digit (of_char b mod 16)]"
      using json_escape_shape[of b] by blast
    then show ?thesis
    proof cases
      case pb
      then show ?thesis using assms sa by auto
    next
      case sb
      then have "e = e'" "X = Y" using assms sa by auto
      then show ?thesis using sa sb json_escape_short_inj by blast
    next
      case ub
      then show ?thesis using assms sa by auto
    qed
  next
    case ua
    consider (pb) "json_escape b = [b]" "b \<noteq> bslash"
      | (sb) e' where "json_escape b = [bslash, e']" "e' \<noteq> CHR ''u''"
      | (ub) "json_escape b = [bslash, CHR ''u'', CHR ''0'', CHR ''0'',
         hex_digit (of_char b div 16), hex_digit (of_char b mod 16)]" "(of_char b :: nat) < 32"
      using json_escape_shape[of b] by blast
    then show ?thesis
    proof cases
      case pb
      then show ?thesis using assms ua by auto
    next
      case sb
      then show ?thesis using assms ua by auto
    next
      case ub
      then have h: "hex_digit (of_char a div 16) = hex_digit (of_char b div 16)"
          "hex_digit (of_char a mod 16) = hex_digit (of_char b mod 16)" "X = Y"
        using assms ua by auto
      then show ?thesis using json_escape_unicode_inj ua(2) ub(2) by blast
    qed
  qed
qed

lemma escaped_run_delimited:
  "concat (map json_escape s) @ dquote # r = concat (map json_escape t) @ dquote # r'
   \<Longrightarrow> s = t \<and> r = r'"
proof (induction s arbitrary: t)
  case Nil
  show ?case
  proof (cases t)
    case Nil
    then show ?thesis using Nil.prems by simp
  next
    case (Cons b t')
    then have "dquote # r = json_escape b @ (concat (map json_escape t') @ dquote # r')"
      using Nil.prems by simp
    then have "hd (json_escape b) = dquote"
      using json_escape_nonempty[of b] by (metis hd_append2 list.sel(1))
    then show ?thesis using json_escape_hd by blast
  qed
next
  case (Cons a s')
  show ?case
  proof (cases t)
    case Nil
    then have "json_escape a @ (concat (map json_escape s') @ dquote # r) = dquote # r'"
      using Cons.prems by simp
    then have "hd (json_escape a) = dquote"
      using json_escape_nonempty[of a] by (metis hd_append2 list.sel(1))
    then show ?thesis using json_escape_hd by blast
  next
    case (Cons b t')
    then have "json_escape a @ (concat (map json_escape s') @ dquote # r)
               = json_escape b @ (concat (map json_escape t') @ dquote # r')"
      using Cons.prems by simp
    then have ab: "a = b" and rest: "concat (map json_escape s') @ dquote # r
               = concat (map json_escape t') @ dquote # r'"
      using json_escape_prefix_code by blast+
    from Cons.IH[OF rest] ab Cons show ?thesis by simp
  qed
qed

lemma json_quote_delimited:
  "json_quote s @ r = json_quote t @ r' \<Longrightarrow> s = t \<and> r = r'"
  using escaped_run_delimited[of s r t r'] by (simp add: json_quote_def)

lemma comma_not_number: "\<not> is_number_char (CHR '','')"
  by (simp add: is_number_char_def is_decimal_digit_def)

lemma brace_not_number: "\<not> is_number_char (CHR ''}'')"
  by (simp add: is_number_char_def is_decimal_digit_def)

lemma toString_hd_number: "is_number_char (hd (toString i @ r))"
  using toString_number_chars[of i] toString_nonempty[of i] by (simp add: hd_append)

lemma json_value_as_json: "json_value (as_json v) = json_value v"
  by (cases v) simp_all

lemma as_json_idem: "as_json (as_json v) = as_json v"
  by (cases v) simp_all

lemma json_value_plain_delimited:
  assumes e: "json_value u @ c # r = json_value v @ d # r'"
    and c: "\<not> is_number_char c" and d: "\<not> is_number_char d"
    and pu: "as_json u = u" and pv: "as_json v = v"
  shows "u = v \<and> c # r = d # r'"
proof -
  have n_not: "\<not> is_number_char (CHR ''n'')" "\<not> is_number_char dquote"
    by (simp_all add: is_number_char_def is_decimal_digit_def)
  have hd_eq: "hd (json_value u @ c # r) = hd (json_value v @ d # r')"
    using e by simp
  have differ: "\<And>n x. hd (toString n @ x) \<noteq> CHR ''n''" "\<And>n x. hd (toString n @ x) \<noteq> dquote"
    using toString_hd_number n_not by metis+
  have not_finite: "v \<noteq> JNaN" "v \<noteq> JInfinity" "v \<noteq> JNegInfinity"
    "u \<noteq> JNaN" "u \<noteq> JInfinity" "u \<noteq> JNegInfinity"
    using pu pv by auto
  show ?thesis
  proof (cases u)
    case JNull
    note u = this
    show ?thesis
    proof (cases v)
      case JNull
      then show ?thesis using e u by simp
    next
      case (JNum n)
      then show ?thesis using hd_eq u differ(1)[of n "d # r'"] by simp
    next
      case (JStr s)
      then show ?thesis using e u by (simp add: json_quote_def)
    qed (use not_finite in simp_all)
  next
    case (JNum m)
    note u = this
    show ?thesis
    proof (cases v)
      case JNull
      then show ?thesis using hd_eq u differ(1)[of m "c # r"] by simp
    next
      case (JNum n)
      then have "toString m @ c # r = toString n @ d # r'" using e u by simp
      from run_delimited[OF this toString_number_chars toString_number_chars c d]
      show ?thesis using u JNum toString_inj by auto
    next
      case (JStr s)
      then show ?thesis using hd_eq u differ(2)[of m "c # r"] by (simp add: json_quote_def)
    qed (use not_finite in simp_all)
  next
    case (JStr s)
    note u = this
    show ?thesis
    proof (cases v)
      case JNull
      then show ?thesis using e u by (simp add: json_quote_def)
    next
      case (JNum n)
      then show ?thesis using hd_eq u differ(2)[of n "d # r'"] by (simp add: json_quote_def)
    next
      case (JStr t)
      then have "json_quote s @ c # r = json_quote t @ d # r'" using e u by simp
      then show ?thesis using json_quote_delimited u JStr by blast
    qed (use not_finite in simp_all)
  qed (use not_finite in simp_all)
qed

lemma json_value_delimited:
  assumes e: "json_value u @ c # r = json_value v @ d # r'"
    and c: "\<not> is_number_char c" and d: "\<not> is_number_char d"
  shows "as_json u = as_json v \<and> c # r = d # r'"
proof -
  have "json_value (as_json u) @ c # r = json_value (as_json v) @ d # r'"
    using e by (simp add: json_value_as_json)
  from json_value_plain_delimited[OF this c d as_json_idem as_json_idem]
  show ?thesis .
qed

lemma stringify_fields_inj:
  assumes "toString h @ CHR '','' # K3 @ json_quote bd @ CHR '','' # K4 @ json_value t
             @ CHR '','' # K5 @ json_value p @ [CHR ''}'']
         = toString h' @ CHR '','' # K3 @ json_quote bd' @ CHR '','' # K4 @ json_value t'
             @ CHR '','' # K5 @ json_value p' @ [CHR ''}'']"
  shows "h = h' \<and> bd = bd' \<and> as_json t = as_json t' \<and> as_json p = as_json p'"
proof -
  from run_delimited[OF assms toString_number_chars toString_number_chars
      comma_not_number comma_not_number]
  have h: "toString h = toString h'"
    and r1: "json_quote bd @ CHR '','' # K4 @ json_value t @ CHR '','' # K5 @ json_value p @ [CHR ''}'']
           = json_quote bd' @ CHR '','' # K4 @ json_value t' @ CHR '','' # K5 @ json_value p' @ [CHR ''}'']"
    by simp_all
  from json_quote_delimited[OF r1]
  have bd: "bd = bd'"
    and r2: "json_value t @ CHR '','' # K5 @ json_value p @ [CHR ''}'']
           = json_value t' @ CHR '','' # K5 @ json_value p' @ [CHR ''}'']"
    by simp_all
  from json_value_delimited[OF r2 comma_not_number comma_not_number]
  have t: "as_json t = as_json t'"
    and r3: "json_value p @ [CHR ''}''] = json_value p' @ [CHR ''}'']"
    by simp_all
  from json_value_delimited[OF r3 brace_not_number brace_not_number]
  have p: "as_json p = as_json p'" by simp
  show ?thesis using h bd t p toString_inj by blast
qed

lemma JSON_stringify_inj:
  assumes "JSON_stringify b = JSON_stringify b'" and "hash b = hash b'"
  shows "height b = height b' \<and> body b = body b'
         \<and> as_json (time b) = as_json (time b')
         \<and> as_json (previousBlockHash b) = as_json (previousBlockHash b')"
  using assms
  by (intro stringify_fields_inj[where ?K3.0 = "json_quote ''body'' @ '':''"
        and ?K4.0 = "json_quote ''time'' @ '':''"
        and ?K5.0 = "json_quote ''previousBlockHash'' @ '':''"])
     (simp add: JSON_stringify_def json_member_def)

subsection \<open>What an append leaves in the chain\<close>

lemma addBlock_first:
  assumes "chain self = []"
  shows "addBlock H now b self =
     (Resolved (b\<lparr>height := 0, time := JStr (time_string now),
                   hash := JStr (H (JSON_stringify (b\<lparr>height := 0, time := JStr (time_string now)\<rparr>)))\<rparr>),
      self\<lparr>chain := [b\<lparr>height := 0, time := JStr (time_string now),
                   hash := JStr (H (JSON_stringify (b\<lparr>height := 0, time := JStr (time_string now)\<rparr>)))\<rparr>],
           chain_height := 0\<rparr>)"
  using assms by (simp add: addBlock_def Let_def)

lemma addBlock_chain_length:
  "length (chain (snd (addBlock H now b self))) = Suc (length (chain self))"
  by (simp add: addBlock_def Let_def)

lemma addBlock_chain_butlast:
  "butlast (chain (snd (addBlock H now b self))) = chain self"
  by (simp add: addBlock_def Let_def)

lemma addBlock_last_fields:
  "body (last (chain (snd (addBlock H now b self)))) = body b
   \<and> time (last (chain (snd (addBlock H now b self)))) = JStr (time_string now)
   \<and> height (last (chain (snd (addBlock H now b self))))
       = (if chain self = [] then 0 else height (last (chain self)) + 1)
   \<and> previousBlockHash (last (chain (snd (addBlock H now b self))))
       = (if chain self = [] then previousBlockHash b else hash (last (chain self)))
   \<and> chain_height (snd (addBlock H now b self))
       = height (last (chain (snd (addBlock H now b self))))"
  by (simp add: addBlock_def Let_def)

lemma addBlock_outcome:
  "fst (addBlock H now b self) =
     (if chain self = [] \<or> validateChain H (chain (snd (addBlock H now b self))) = []
      then Resolved (last (chain (snd (addBlock H now b self))))
      else Rejected (Error ''Chain validation failed.''))"
  by (simp add: addBlock_def Let_def)

lemma addBlock_keeps_valid:
  assumes "validateChain H (chain self) = []" and "hash b = JNull"
  shows "validateChain H (chain (snd (addBlock H now b self))) = []"
proof -
  have "chain (snd (addBlock H now b self))
        = chain self @ [last (chain (snd (addBlock H now b self)))]"
    by (rule addBlock_chain)
  then have "validateChain H (chain (snd (addBlock H now b self)))
        = validateChain H (chain self) @ validateChain H [last (chain (snd (addBlock H now b self)))]"
    by (metis validateChain_append)
  moreover have "validateChain H [last (chain (snd (addBlock H now b self)))] = []"
    using addBlock_validate_last[OF assms(2)] by (simp add: validateChain_eq)
  ultimately show ?thesis using assms(1) by simp
qed

lemma addBlocks_length:
  "length (chain (addBlocks H evs self)) = length (chain self) + length evs"
  by (induction evs arbitrary: self) (auto simp: addBlock_chain_length)

lemma addBlocks_valid:
  "validateChain H (chain self) = [] \<Longrightarrow> validateChain H (chain (addBlocks H evs self)) = []"
proof (induction evs arbitrary: self)
  case Nil
  then show ?case by simp
next
  case (Cons ev evs)
  obtain now encoded where ev: "ev = (now, encoded)" by (cases ev)
  have "validateChain H (chain (snd (addBlock H now (new_Block encoded) self))) = []"
    using Cons.prems by (intro addBlock_keeps_valid) (simp_all add: new_Block_def)
  then show ?case using Cons.IH ev by simp
qed

lemma hash_linked_iff:
  "hash_linked c \<longleftrightarrow>
     (\<forall>i < length c. height (c ! i) = int i
        \<and> (if i = 0 then previousBlockHash (c ! i) = JNull
           else previousBlockHash (c ! i) = hash (c ! (i - 1))))"
  by (auto simp: hash_linked_def list_all_iff)

lemma addBlock_hash_linked:
  assumes linked: "hash_linked (chain self)" and fresh: "previousBlockHash b = JNull"
  shows "hash_linked (chain (snd (addBlock H now b self)))"
proof -
  let ?c = "chain self"
  let ?c' = "chain (snd (addBlock H now b self))"
  let ?n = "last ?c'"
  have c': "?c' = ?c @ [?n]" by (rule addBlock_chain)
  have f: "height ?n = (if ?c = [] then 0 else height (last ?c) + 1)"
     "previousBlockHash ?n = (if ?c = [] then previousBlockHash b else hash (last ?c))"
    using addBlock_last_fields[of H now b self] by simp_all
  have "height (?c' ! i) = int i
        \<and> (if i = 0 then previousBlockHash (?c' ! i) = JNull
           else previousBlockHash (?c' ! i) = hash (?c' ! (i - 1)))"
    if i: "i < length ?c'" for i
  proof (cases "i < length ?c")
    case True
    have same: "?c' ! j = ?c ! j" if "j < length ?c" for j
      using that by (subst c') (simp add: nth_append)
    have "i - 1 < length ?c" using True by simp
    then have "?c' ! i = ?c ! i" "?c' ! (i - 1) = ?c ! (i - 1)"
      using same True by blast+
    moreover have "height (?c ! i) = int i
        \<and> (if i = 0 then previousBlockHash (?c ! i) = JNull
           else previousBlockHash (?c ! i) = hash (?c ! (i - 1)))"
      using linked True unfolding hash_linked_iff by blast
    ultimately show ?thesis by presburger
  next
    case False
    then have il: "i = length ?c" using i addBlock_chain_length[of H now b self] by simp
    then have ni: "?c' ! i = ?n" by (subst c') simp
    show ?thesis
    proof (cases "?c = []")
      case True
      then show ?thesis using il ni f fresh by simp
    next
      case False
      then have pos: "0 < length ?c" by simp
      then have lastc: "last ?c = ?c ! (length ?c - 1)" using False by (simp add: last_conv_nth)
      have prev: "?c' ! (i - 1) = ?c ! (length ?c - 1)"
        using il pos by (subst c') (simp add: nth_append)
      have "height (?c ! (length ?c - 1)) = int (length ?c - 1)"
        using linked pos by (simp add: hash_linked_iff)
      then show ?thesis using il ni f False lastc prev pos by (simp add: of_nat_diff)
    qed
  qed
  then show ?thesis unfolding hash_linked_iff by blast
qed

lemma addBlocks_hash_linked:
  "hash_linked (chain self) \<Longrightarrow> hash_linked (chain (addBlocks H evs self))"
proof (induction evs arbitrary: self)
  case Nil
  then show ?case by simp
next
  case (Cons ev evs)
  obtain now encoded where ev: "ev = (now, encoded)" by (cases ev)
  have "hash_linked (chain (snd (addBlock H now (new_Block encoded) self)))"
    using Cons.prems by (intro addBlock_hash_linked) (simp_all add: new_Block_def)
  then show ?case using Cons.IH ev by simp
qed

lemma new_Blockchain_addBlocks:
  "new_Blockchain H encode now = addBlocks H [(now, encode genesis_data)] blank_Blockchain"
  by (simp add: new_Blockchain_def initializeChain_def blank_Blockchain_def)

lemma submitStar_chain_cases:
  "snd (snd (submitStar H verify encode now now_seal address message signature star self)) = self
   \<or> snd (snd (submitStar H verify encode now now_seal address message signature star self))
       = addBlocks H [(now_seal, encode (J_obj
            [(''address'', J_str address), (''message'', J_str message),
             (''signature'', J_str signature), (''star'', star)]))] self"
  by (auto simp: submitStar_def Let_def split: option.splits prod.splits promise.splits)

subsection \<open>The query by wallet address\<close>

lemma callbacks_started:
  "foldl (\<lambda>st b. callback_start hex2ascii JSON_parse b st) st c
   = st\<lparr>microtasks := microtasks st @ map (getBData hex2ascii JSON_parse) c\<rparr>"
  by (induction c arbitrary: st) (simp_all add: callback_start_def)

lemma getStarsByWalletAddress_state:
  "getStarsByWalletAddress hex2ascii JSON_parse address c
   = \<lparr>stars = [], microtasks = map (getBData hex2ascii JSON_parse) c,
       resolved_with = Some [], unhandled = []\<rparr>"
  by (simp add: getStarsByWalletAddress_def Let_def callbacks_started)

lemma addBlock_nonempty: "chain (snd (addBlock H now b self)) \<noteq> []"
  by (simp add: addBlock_def Let_def)

lemma addBlock_new_Block_chain:
  "chain (snd (addBlock H now (new_Block encoded) self))
   = chain self @ [last (chain (snd (addBlock H now (new_Block encoded) self)))]
   \<and> body (last (chain (snd (addBlock H now (new_Block encoded) self)))) = encoded
   \<and> height (last (chain (snd (addBlock H now (new_Block encoded) self))))
       = (if chain self = [] then 0 else height (last (chain self)) + 1)"
  using addBlock_chain[of H now "new_Block encoded" self]
    addBlock_last_fields[of H now "new_Block encoded" self]
  by (simp add: new_Block_def)

section \<open>The claims\<close>

text \<open>
  C1. In every chain built from the empty chain by a run of appends of freshly constructed
  blocks, the block at index \<open>i\<close> has height \<open>i\<close>, the first block has
  \<open>previousBlockHash = null\<close>, and every later block's \<open>previousBlockHash\<close> is the hash of
  the block before it. (The constructor's chain and the chain after a \<open>submitStar\<close> are such
  chains: \<open>new_Blockchain_addBlocks\<close>, \<open>submitStar_chain_cases\<close>.)
\<close>

theorem addBlocks_heights_and_links:
  assumes "c = chain (addBlocks sha256 evs blank_Blockchain)" and "i < length c"
  shows "height (c ! i) = int i
         \<and> (if i = 0 then previousBlockHash (c ! i) = JNull
            else previousBlockHash (c ! i) = hash (c ! (i - 1)))"
proof -
  have "hash_linked (chain blank_Blockchain)"
    by (simp add: hash_linked_def blank_Blockchain_def)
  then have "hash_linked c"
    unfolding assms(1) by (rule addBlocks_hash_linked)
  then show ?thesis using assms(2) unfolding hash_linked_iff by blast
qed

theorem addBlocks_heights_and_links_witness:
  "(2::nat) < length (chain (addBlocks sample_digest
        [(1000, ''7b7d''), (2000, ''7b7d''), (3000, ''7b7d'')] blank_Blockchain))
   \<and> height (chain (addBlocks sample_digest
        [(1000, ''7b7d''), (2000, ''7b7d''), (3000, ''7b7d'')] blank_Blockchain) ! 2) = 2
   \<and> previousBlockHash (chain (addBlocks sample_digest
        [(1000, ''7b7d''), (2000, ''7b7d''), (3000, ''7b7d'')] blank_Blockchain) ! 2)
     = hash (chain (addBlocks sample_digest
        [(1000, ''7b7d''), (2000, ''7b7d''), (3000, ''7b7d'')] blank_Blockchain) ! 1)"
proof -
  let ?c = "chain (addBlocks sample_digest
        [(1000, ''7b7d''), (2000, ''7b7d''), (3000, ''7b7d'')] blank_Blockchain)"
  have len: "2 < length ?c"
    unfolding addBlocks_length by (simp add: blank_Blockchain_def)
  from addBlocks_heights_and_links[OF refl len] len show ?thesis
    by simp
qed

text \<open>
  C2. A block that is not yet sealed (its \<open>hash\<close> is \<open>null\<close>, as the constructor leaves it)
  and is appended by \<open>_addBlock\<close> becomes the last block of the chain, its stored hash is the
  digest of its content serialised with \<open>hash\<close> set to \<open>null\<close>, and \<open>validate()\<close> resolves
  \<open>true\<close> on it.
\<close>

theorem addBlock_seals_valid_block:
  assumes "hash b = JNull"
  shows "chain (snd (addBlock sha256 now b self))
           = chain self @ [last (chain (snd (addBlock sha256 now b self)))]
         \<and> hash (last (chain (snd (addBlock sha256 now b self))))
           = JStr (sha256 (JSON_stringify
               ((last (chain (snd (addBlock sha256 now b self))))\<lparr>hash := JNull\<rparr>)))
         \<and> validate sha256 (last (chain (snd (addBlock sha256 now b self))))"
proof -
  have v: "validate sha256 (last (chain (snd (addBlock sha256 now b self))))"
    using assms by (rule addBlock_validate_last)
  then have "hash (last (chain (snd (addBlock sha256 now b self))))
           = JStr (sha256 (JSON_stringify
               ((last (chain (snd (addBlock sha256 now b self))))\<lparr>hash := JNull\<rparr>)))"
    by (simp add: validate_def Let_def split: if_splits)
  then show ?thesis using v addBlock_chain[of sha256 now b self] by simp
qed

theorem addBlock_seals_valid_block_witness:
  "hash (new_Block ''7b7d'') = JNull
   \<and> validate sample_digest
        (last (chain (snd (addBlock sample_digest 1700000000000 (new_Block ''7b7d'')
           blank_Blockchain))))"
  using addBlock_seals_valid_block[of "new_Block ''7b7d''" sample_digest 1700000000000
      blank_Blockchain]
  by (simp add: new_Block_def)

text \<open>
  C3 (as amended). Take a chain on which \<open>validateChain()\<close> reports nothing, and change, in
  its block at index \<open>i\<close>, one or more of \<open>height\<close>, \<open>body\<close>, \<open>time\<close> and
  \<open>previousBlockHash\<close> (the stored \<open>hash\<close> is kept), other than by exchanging \<open>null\<close>, \<open>NaN\<close>,
  \<open>Infinity\<close> and \<open>-Infinity\<close> for one another, which \<open>JSON.stringify\<close> all writes \<open>null\<close>.
  Provided the digest does not map the serialisation of the changed block and that of the
  original block to the same value, \<open>validate()\<close> is false on the changed block and
  \<open>validateChain()\<close> on the changed chain returns exactly one entry, the one of that block.
\<close>

theorem tampered_block_is_reported_once:
  assumes valid: "validateChain sha256 c = []"
    and i: "i < length c"
    and same_hash: "hash b' = hash (c ! i)"
    and changed: "(height b', body b', as_json (time b'), as_json (previousBlockHash b'))
                  \<noteq> (height (c ! i), body (c ! i), as_json (time (c ! i)),
                       as_json (previousBlockHash (c ! i)))"
    and no_collision:
      "sha256 (JSON_stringify (b'\<lparr>hash := JNull\<rparr>)) = sha256 (JSON_stringify ((c ! i)\<lparr>hash := JNull\<rparr>))
       \<Longrightarrow> JSON_stringify (b'\<lparr>hash := JNull\<rparr>) = JSON_stringify ((c ! i)\<lparr>hash := JNull\<rparr>)"
  shows "\<not> validate sha256 b'
         \<and> validateChain sha256 (c[i := b']) = [''Block '' @ toString (height b') @ '' is not valid.'']"
proof -
  have all_valid: "\<forall>b \<in> set c. validate sha256 b"
    using valid by (simp add: validateChain_eq filter_empty_conv)
  then have "validate sha256 (c ! i)" using i by simp
  then have stored: "hash (c ! i) = JStr (sha256 (JSON_stringify ((c ! i)\<lparr>hash := JNull\<rparr>)))"
    by (simp add: validate_def Let_def split: if_splits)
  have invalid: "\<not> validate sha256 b'"
  proof
    assume "validate sha256 b'"
    then have "hash b' = JStr (sha256 (JSON_stringify (b'\<lparr>hash := JNull\<rparr>)))"
      by (simp add: validate_def Let_def split: if_splits)
    then have "sha256 (JSON_stringify (b'\<lparr>hash := JNull\<rparr>))
               = sha256 (JSON_stringify ((c ! i)\<lparr>hash := JNull\<rparr>))"
      using stored same_hash by simp
    then have "JSON_stringify (b'\<lparr>hash := JNull\<rparr>) = JSON_stringify ((c ! i)\<lparr>hash := JNull\<rparr>)"
      by (rule no_collision)
    then have "height (b'\<lparr>hash := JNull\<rparr>) = height ((c ! i)\<lparr>hash := JNull\<rparr>)
               \<and> body (b'\<lparr>hash := JNull\<rparr>) = body ((c ! i)\<lparr>hash := JNull\<rparr>)
               \<and> as_json (time (b'\<lparr>hash := JNull\<rparr>)) = as_json (time ((c ! i)\<lparr>hash := JNull\<rparr>))
               \<and> as_json (previousBlockHash (b'\<lparr>hash := JNull\<rparr>))
                   = as_json (previousBlockHash ((c ! i)\<lparr>hash := JNull\<rparr>))"
      by (rule JSON_stringify_inj) simp
    then show False using changed by simp
  qed
  have split_c: "c[i := b'] = take i c @ [b'] @ drop (Suc i) c"
    using i by (simp add: upd_conv_take_nth_drop)
  have "\<forall>b \<in> set (take i c). validate sha256 b" "\<forall>b \<in> set (drop (Suc i) c). validate sha256 b"
    using all_valid by (meson in_set_takeD in_set_dropD)+
  then have "validateChain sha256 (take i c) = []" "validateChain sha256 (drop (Suc i) c) = []"
    by (simp_all add: validateChain_eq filter_empty_conv)
  moreover have "validateChain sha256 [b'] = [''Block '' @ toString (height b') @ '' is not valid.'']"
    using invalid by (simp add: validateChain_eq invalid_entry_def)
  ultimately have "validateChain sha256 (c[i := b'])
                   = [''Block '' @ toString (height b') @ '' is not valid.'']"
    unfolding split_c validateChain_append by simp
  then show ?thesis using invalid by simp
qed

theorem tampered_block_is_reported_once_witness:
  "validateChain sample_digest
      [\<lparr>hash = JStr (sample_digest (JSON_stringify
            \<lparr>hash = JNull, height = 0, body = ''7b7d'', time = JStr ''1'',
              previousBlockHash = JNull\<rparr>)),
         height = 0, body = ''7b7d'', time = JStr ''1'', previousBlockHash = JNull\<rparr>] = []
   \<and> \<not> validate sample_digest
        \<lparr>hash = JStr (sample_digest (JSON_stringify
            \<lparr>hash = JNull, height = 0, body = ''7b7d'', time = JStr ''1'',
              previousBlockHash = JNull\<rparr>)),
         height = 0, body = ''7b7e'', time = JStr ''1'', previousBlockHash = JNull\<rparr>
   \<and> validateChain sample_digest
      [\<lparr>hash = JStr (sample_digest (JSON_stringify
            \<lparr>hash = JNull, height = 0, body = ''7b7d'', time = JStr ''1'',
              previousBlockHash = JNull\<rparr>)),
         height = 0, body = ''7b7e'', time = JStr ''1'', previousBlockHash = JNull\<rparr>]
     = [''Block 0 is not valid.'']"
proof -
  let ?fresh = "\<lparr>hash = JNull, height = 0, body = ''7b7d'', time = JStr ''1'',
               previousBlockHash = JNull\<rparr>"
  let ?g = "?fresh\<lparr>hash := JStr (sample_digest (JSON_stringify ?fresh))\<rparr>"
  let ?t = "?g\<lparr>body := ''7b7e''\<rparr>"
  have "validate sample_digest ?g"
    by (rule validate_sealed) simp
  then have valid: "validateChain sample_digest [?g] = []"
    by (simp add: validateChain_eq)
  have i: "0 < length [?g]" by simp
  have same_hash: "hash ?t = hash ([?g] ! 0)" by simp
  have changed: "(height ?t, body ?t, as_json (time ?t), as_json (previousBlockHash ?t))
        \<noteq> (height ([?g] ! 0), body ([?g] ! 0), as_json (time ([?g] ! 0)),
             as_json (previousBlockHash ([?g] ! 0)))"
    by simp
  have digests: "sample_digest (JSON_stringify \<lparr>hash = JNull, height = 0, body = ''7b7e'',
                    time = JStr ''1'', previousBlockHash = JNull\<rparr>)
                 \<noteq> sample_digest (JSON_stringify ?fresh)"
    by code_simp
  have no_collision: "sample_digest (JSON_stringify (?t\<lparr>hash := JNull\<rparr>))
          = sample_digest (JSON_stringify (([?g] ! 0)\<lparr>hash := JNull\<rparr>))
        \<Longrightarrow> JSON_stringify (?t\<lparr>hash := JNull\<rparr>) = JSON_stringify (([?g] ! 0)\<lparr>hash := JNull\<rparr>)"
    using digests by simp
  have zero: "toString 0 = ''0''" by code_simp
  from tampered_block_is_reported_once[OF valid i same_hash changed no_collision] valid zero
  show ?thesis by simp
qed

text \<open>A change of a field to a different value that \<open>validate()\<close> does not detect: in the
  genesis block of a new chain, \<open>previousBlockHash\<close> is \<open>null\<close>; set to \<open>NaN\<close>, the block
  still validates and \<open>validateChain()\<close> reports nothing.\<close>

theorem genesis_link_NaN_is_not_detected:
  "previousBlockHash (hd (chain (new_Blockchain sample_digest sample_encode 1000))) = JNull
   \<and> JNaN \<noteq> JNull
   \<and> validate sample_digest
        ((hd (chain (new_Blockchain sample_digest sample_encode 1000)))
           \<lparr>previousBlockHash := JNaN\<rparr>)
   \<and> validateChain sample_digest
        ((chain (new_Blockchain sample_digest sample_encode 1000))
           [0 := (hd (chain (new_Blockchain sample_digest sample_encode 1000)))
                   \<lparr>previousBlockHash := JNaN\<rparr>]) = []"
  by (simp add: new_Blockchain_def initializeChain_def blank_Blockchain_def addBlock_def Let_def
      new_Block_def validate_def validateChain_eq JSON_stringify_def)

text \<open>
  C4. \<open>getStarsByWalletAddress\<close> resolves its promise as soon as \<open>forEach\<close> has started
  the callbacks: at that moment no callback has pushed anything, so the array it resolves
  with is empty. For the chain of the genesis block and three stars of the wallets \<open>A\<close>,
  \<open>A\<close> and \<open>B\<close>, queried for \<open>A\<close>: the array is empty when the promise resolves; the two
  payloads of \<open>A\<close> are pushed, in chain order, only when the suspended callbacks run; and the
  rejection of the genesis block's \<open>getBData()\<close> reaches no handler.
\<close>

theorem getStarsByWalletAddress_resolves_empty:
  "resolved_with (getStarsByWalletAddress sample_hex2ascii sample_JSON_parse ''A''
       (chain (addBlocks sha256
          [(1000, sample_encode genesis_data), (9000, sample_encode star_A1),
           (10000, sample_encode star_A2), (11000, sample_encode star_B)] blank_Blockchain)))
     = Some []
   \<and> stars (run_microtasks ''A''
       (getStarsByWalletAddress sample_hex2ascii sample_JSON_parse ''A''
          (chain (addBlocks sha256
             [(1000, sample_encode genesis_data), (9000, sample_encode star_A1),
              (10000, sample_encode star_A2), (11000, sample_encode star_B)] blank_Blockchain))))
     = [star_A1, star_A2]
   \<and> unhandled (run_microtasks ''A''
       (getStarsByWalletAddress sample_hex2ascii sample_JSON_parse ''A''
          (chain (addBlocks sha256
             [(1000, sample_encode genesis_data), (9000, sample_encode star_A1),
              (10000, sample_encode star_A2), (11000, sample_encode star_B)] blank_Blockchain))))
     = [Error ''Genesis block doesn't contain data.'']"
proof -
  let ?bc1 = "snd (addBlock sha256 1000 (new_Block (sample_encode genesis_data)) blank_Blockchain)"
  let ?bc2 = "snd (addBlock sha256 9000 (new_Block (sample_encode star_A1)) ?bc1)"
  let ?bc3 = "snd (addBlock sha256 10000 (new_Block (sample_encode star_A2)) ?bc2)"
  let ?bc4 = "snd (addBlock sha256 11000 (new_Block (sample_encode star_B)) ?bc3)"
  let ?get = "getBData sample_hex2ascii sample_JSON_parse"
  have c1: "chain ?bc1 = [last (chain ?bc1)]"
    using addBlock_new_Block_chain[of sha256 1000 "sample_encode genesis_data" blank_Blockchain]
    by (simp add: blank_Blockchain_def)
  have g1: "?get (last (chain ?bc1)) = Rejected (Error ''Genesis block doesn't contain data.'')"
  proof -
    have "sample_JSON_parse (sample_hex2ascii (sample_encode genesis_data)) = Some genesis_data"
      by code_simp
    moreover have "body (last (chain ?bc1)) = sample_encode genesis_data"
      "height (last (chain ?bc1)) = 0"
      using addBlock_new_Block_chain[of sha256 1000 "sample_encode genesis_data" blank_Blockchain]
      by (simp_all add: blank_Blockchain_def)
    ultimately show ?thesis by (simp add: getBData_def)
  qed
  have c2: "chain ?bc2 = chain ?bc1 @ [last (chain ?bc2)]"
    using addBlock_new_Block_chain[of sha256 9000 "sample_encode star_A1" ?bc1] by blast
  have g2: "?get (last (chain ?bc2)) = Resolved star_A1"
  proof -
    have "sample_JSON_parse (sample_hex2ascii (sample_encode star_A1)) = Some star_A1"
      by code_simp
    moreover have "body (last (chain ?bc2)) = sample_encode star_A1"
      "height (last (chain ?bc2)) = height (last (chain ?bc1)) + 1"
      using addBlock_new_Block_chain[of sha256 9000 "sample_encode star_A1" ?bc1]
        addBlock_nonempty[of sha256 1000 "new_Block (sample_encode genesis_data)" blank_Blockchain]
      by simp_all
    moreover have "height (last (chain ?bc1)) = 0"
      using addBlock_new_Block_chain[of sha256 1000 "sample_encode genesis_data" blank_Blockchain]
      by (simp add: blank_Blockchain_def)
    ultimately show ?thesis by (simp add: getBData_def)
  qed
  have h2: "height (last (chain ?bc2)) = 1"
    using addBlock_new_Block_chain[of sha256 9000 "sample_encode star_A1" ?bc1]
      addBlock_new_Block_chain[of sha256 1000 "sample_encode genesis_data" blank_Blockchain]
      addBlock_nonempty[of sha256 1000 "new_Block (sample_encode genesis_data)" blank_Blockchain]
    by (simp add: blank_Blockchain_def)
  have c3: "chain ?bc3 = chain ?bc2 @ [last (chain ?bc3)]"
    using addBlock_new_Block_chain[of sha256 10000 "sample_encode star_A2" ?bc2] by blast
  have h3: "height (last (chain ?bc3)) = 2"
    using addBlock_new_Block_chain[of sha256 10000 "sample_encode star_A2" ?bc2] h2
      addBlock_nonempty[of sha256 9000 "new_Block (sample_encode star_A1)" ?bc1]
    by simp
  have g3: "?get (last (chain ?bc3)) = Resolved star_A2"
  proof -
    have "sample_JSON_parse (sample_hex2ascii (sample_encode star_A2)) = Some star_A2"
      by code_simp
    moreover have "body (last (chain ?bc3)) = sample_encode star_A2"
      using addBlock_new_Block_chain[of sha256 10000 "sample_encode star_A2" ?bc2] by blast
    ultimately show ?thesis using h3 by (simp add: getBData_def)
  qed
  have c4: "chain ?bc4 = chain ?bc3 @ [last (chain ?bc4)]"
    using addBlock_new_Block_chain[of sha256 11000 "sample_encode star_B" ?bc3] by blast
  have h4: "height (last (chain ?bc4)) = 3"
    using addBlock_new_Block_chain[of sha256 11000 "sample_encode star_B" ?bc3] h3
      addBlock_nonempty[of sha256 10000 "new_Block (sample_encode star_A2)" ?bc2]
    by simp
  have g4: "?get (last (chain ?bc4)) = Resolved star_B"
  proof -
    have "sample_JSON_parse (sample_hex2ascii (sample_encode star_B)) = Some star_B"
      by code_simp
    moreover have "body (last (chain ?bc4)) = sample_encode star_B"
      using addBlock_new_Block_chain[of sha256 11000 "sample_encode star_B" ?bc3] by blast
    ultimately show ?thesis using h4 by (simp add: getBData_def)
  qed
  have decoded: "map ?get (chain ?bc4)
      = [Rejected (Error ''Genesis block doesn't contain data.''), Resolved star_A1,
         Resolved star_A2, Resolved star_B]"
    by (subst c4, subst c3, subst c2, subst c1) (simp add: g1 g2 g3 g4)
  have q: "getStarsByWalletAddress sample_hex2ascii sample_JSON_parse ''A''
       (chain (addBlocks sha256
          [(1000, sample_encode genesis_data), (9000, sample_encode star_A1),
           (10000, sample_encode star_A2), (11000, sample_encode star_B)] blank_Blockchain))
     = \<lparr>stars = [],
         microtasks = [Rejected (Error ''Genesis block doesn't contain data.''), Resolved star_A1,
                       Resolved star_A2, Resolved star_B],
         resolved_with = Some [], unhandled = []\<rparr>"
    using decoded by (simp add: getStarsByWalletAddress_state)
  show ?thesis
    unfolding q
    by (simp add: run_microtasks_def callback_resume_def star_A1_def star_A2_def star_B_def)
qed

text \<open>
  C5. When the validation that follows a non-genesis append reports an error, \<open>_addBlock\<close>
  rejects with the error \<open>Chain validation failed.\<close> and the block stays in the chain: the
  chain afterwards is the chain before followed by the new block, linked to the former last
  block, and the cached height is the new block's height.
\<close>

theorem addBlock_failed_validation_keeps_block:
  assumes "chain self \<noteq> []"
    and "validateChain sha256 (chain (snd (addBlock sha256 now b self))) \<noteq> []"
  shows "fst (addBlock sha256 now b self) = Rejected (Error ''Chain validation failed.'')
         \<and> chain (snd (addBlock sha256 now b self))
             = chain self @ [last (chain (snd (addBlock sha256 now b self)))]
         \<and> body (last (chain (snd (addBlock sha256 now b self)))) = body b
         \<and> height (last (chain (snd (addBlock sha256 now b self))))
             = height (last (chain self)) + 1
         \<and> previousBlockHash (last (chain (snd (addBlock sha256 now b self))))
             = hash (last (chain self))
         \<and> chain_height (snd (addBlock sha256 now b self)) = height (last (chain self)) + 1"
  using assms addBlock_outcome[of sha256 now b self] addBlock_chain[of sha256 now b self]
    addBlock_last_fields[of sha256 now b self]
  by simp

theorem addBlock_failed_validation_keeps_block_witness:
  "fst (addBlock sample_digest 2000 (new_Block ''7b7d'')
          \<lparr>chain = [\<lparr>hash = JStr ''0'', height = 0, body = ''7b7d'', time = JStr ''1'',
                      previousBlockHash = JNull\<rparr>], chain_height = 0\<rparr>)
     = Rejected (Error ''Chain validation failed.'')
   \<and> length (chain (snd (addBlock sample_digest 2000 (new_Block ''7b7d'')
          \<lparr>chain = [\<lparr>hash = JStr ''0'', height = 0, body = ''7b7d'', time = JStr ''1'',
                      previousBlockHash = JNull\<rparr>], chain_height = 0\<rparr>))) = 2"
proof -
  let ?g = "\<lparr>hash = JStr ''0'', height = 0, body = ''7b7d'', time = JStr ''1'',
              previousBlockHash = JNull\<rparr>"
  let ?self = "\<lparr>chain = [?g], chain_height = 0\<rparr>"
  have bad: "\<not> validate sample_digest ?g"
    by code_simp
  have nonempty: "chain ?self \<noteq> []" by simp
  have "chain (snd (addBlock sample_digest 2000 (new_Block ''7b7d'') ?self))
        = chain ?self @ [last (chain (snd (addBlock sample_digest 2000 (new_Block ''7b7d'') ?self)))]"
    by (rule addBlock_chain)
  then have "validateChain sample_digest
               (chain (snd (addBlock sample_digest 2000 (new_Block ''7b7d'') ?self)))
             = validateChain sample_digest (chain ?self)
               @ validateChain sample_digest
                   [last (chain (snd (addBlock sample_digest 2000 (new_Block ''7b7d'') ?self)))]"
    by (metis validateChain_append)
  moreover have "validateChain sample_digest (chain ?self) \<noteq> []"
    using bad by (simp add: validateChain_eq)
  ultimately have invalid: "validateChain sample_digest
               (chain (snd (addBlock sample_digest 2000 (new_Block ''7b7d'') ?self))) \<noteq> []"
    by simp
  from addBlock_failed_validation_keeps_block[OF nonempty invalid]
  show ?thesis by (simp add: addBlock_chain_length)
qed

text \<open>
  C6. \<open>submitStar\<close> tests the age of the challenge first. Whenever the message carries a
  timestamp and the clock reading, both read by \<open>parseInt\<close>, lie more than 300 seconds apart,
  the promise is rejected with \<open>5 miutes have passed\<close>, the verifier has not been called and
  the chain is untouched; so it is at 301 seconds. Within the window an invalid signature
  rejects with \<open>Error detected with signature\<close> after one call of the verifier, before any
  append. At 299 seconds with a signature the verifier accepts, the block holding the
  submission is appended and, on a chain that validates, the promise resolves with it.
\<close>

theorem submitStar_expiry_then_signature_then_append:
  assumes "parseInt (index_1 (split_on CHR '':'' message)) = Some issued"
    and "parseInt (Some (time_string now)) = Some current"
  shows "(300 < current - issued \<longrightarrow>
            submitStar sha256 verify encode now now_seal address message signature star self
              = (Rejected (Message ''5 miutes have passed''), [], self))
       \<and> (current - issued = 301 \<longrightarrow>
            fst (submitStar sha256 verify encode now now_seal address message signature star self)
              = Rejected (Message ''5 miutes have passed''))
       \<and> (current - issued \<le> 300 \<and> verify message address signature = Some False \<longrightarrow>
            submitStar sha256 verify encode now now_seal address message signature star self
              = (Rejected (Message ''Error detected with signature''),
                 [(message, address, signature)], self))
       \<and> (current - issued = 299 \<and> verify message address signature = Some True \<longrightarrow>
            chain (snd (snd
                  (submitStar sha256 verify encode now now_seal address message signature star self)))
              = chain self @ [last (chain (snd (snd
                  (submitStar sha256 verify encode now now_seal address message signature star self))))]
            \<and> body (last (chain (snd (snd
                  (submitStar sha256 verify encode now now_seal address message signature star self)))))
              = encode (J_obj [(''address'', J_str address), (''message'', J_str message),
                               (''signature'', J_str signature), (''star'', star)])
            \<and> (validateChain sha256 (chain self) = [] \<longrightarrow>
                 fst (submitStar sha256 verify encode now now_seal address message signature star self)
                   = Resolved (last (chain (snd (snd
                       (submitStar sha256 verify encode now now_seal address message signature star
                          self)))))))"
proof -
  let ?nb = "new_Block (encode (J_obj [(''address'', J_str address), (''message'', J_str message),
                               (''signature'', J_str signature), (''star'', star)]))"
  let ?run = "submitStar sha256 verify encode now now_seal address message signature star self"
  have expired: "elapsed_gt_300 (Some current) (Some issued) = (300 < current - issued)"
    by (simp add: elapsed_gt_300_def)
  have 1: "300 < current - issued \<Longrightarrow> ?run = (Rejected (Message ''5 miutes have passed''), [], self)"
    using assms expired by (simp add: submitStar_def Let_def)
  have 3: "current - issued \<le> 300 \<Longrightarrow> verify message address signature = Some False \<Longrightarrow>
           ?run = (Rejected (Message ''Error detected with signature''),
                   [(message, address, signature)], self)"
    using assms expired by (simp add: submitStar_def Let_def)
  have 4: "chain (snd (snd ?run)) = chain self @ [last (chain (snd (snd ?run)))]
           \<and> body (last (chain (snd (snd ?run)))) = body ?nb
           \<and> (validateChain sha256 (chain self) = [] \<longrightarrow>
                fst ?run = Resolved (last (chain (snd (snd ?run)))))"
    if w: "current - issued = 299" and v: "verify message address signature = Some True"
  proof -
    obtain r s where rs: "addBlock sha256 now_seal ?nb self = (r, s)"
      by (cases "addBlock sha256 now_seal ?nb self")
    have appended: "snd (snd ?run) = s"
      using assms expired w v rs
      by (cases r) (simp_all add: submitStar_def Let_def)
    have fresh: "hash ?nb = JNull" by (simp add: new_Block_def)
    have resolved: "fst ?run = Resolved (last (chain s))"
      if ok: "validateChain sha256 (chain self) = []"
    proof -
      have "validateChain sha256 (chain (snd (addBlock sha256 now_seal ?nb self))) = []"
        using ok fresh by (rule addBlock_keeps_valid)
      then have "r = Resolved (last (chain s))"
        using rs addBlock_outcome[of sha256 now_seal ?nb self] by simp
      then show ?thesis
        using assms expired w v rs by (simp add: submitStar_def Let_def)
    qed
    show ?thesis
      using appended resolved addBlock_chain[of sha256 now_seal ?nb self]
        addBlock_last_fields[of sha256 now_seal ?nb self] rs
      by simp
  qed
  from 1 3 4 show ?thesis by (simp add: new_Block_def)
qed

theorem submitStar_expiry_then_signature_then_append_witness:
  "submitStar sample_digest sample_verify sample_encode 306000 306000
       ''A'' (requestMessageOwnershipVerification 5123 ''A'') ''s1'' (J_str ''Polaris'')
       (new_Blockchain sample_digest sample_encode 1000)
     = (Rejected (Message ''5 miutes have passed''), [],
        new_Blockchain sample_digest sample_encode 1000)
   \<and> fst (submitStar sample_digest sample_verify sample_encode 304000 304000
       ''A'' (requestMessageOwnershipVerification 5123 ''A'') ''s1'' (J_str ''Polaris'')
       (new_Blockchain sample_digest sample_encode 1000))
     = Resolved (last (chain (snd (snd
         (submitStar sample_digest sample_verify sample_encode 304000 304000
            ''A'' (requestMessageOwnershipVerification 5123 ''A'') ''s1'' (J_str ''Polaris'')
            (new_Blockchain sample_digest sample_encode 1000))))))
   \<and> body (last (chain (snd (snd
         (submitStar sample_digest sample_verify sample_encode 304000 304000
            ''A'' (requestMessageOwnershipVerification 5123 ''A'') ''s1'' (J_str ''Polaris'')
            (new_Blockchain sample_digest sample_encode 1000))))))
     = sample_encode star_A1"
proof -
  let ?message = "requestMessageOwnershipVerification 5123 ''A''"
  let ?self = "new_Blockchain sample_digest sample_encode 1000"
  have issued: "parseInt (index_1 (split_on CHR '':'' ?message)) = Some 5"
    by code_simp
  have late: "parseInt (Some (time_string 306000)) = Some 306"
    by code_simp
  have in_time: "parseInt (Some (time_string 304000)) = Some 304"
    by code_simp
  have accepted: "sample_verify ?message ''A'' ''s1'' = Some True"
    by (simp add: sample_verify_def)
  have "validateChain sample_digest (chain blank_Blockchain) = []"
    by (simp add: blank_Blockchain_def validateChain_eq)
  then have valid: "validateChain sample_digest (chain ?self) = []"
    unfolding new_Blockchain_addBlocks by (rule addBlocks_valid)
  have payload: "J_obj [(''address'', J_str ''A''), (''message'', J_str ?message),
                        (''signature'', J_str ''s1''), (''star'', J_str ''Polaris'')] = star_A1"
    by code_simp
  from submitStar_expiry_then_signature_then_append[OF issued late, of sample_digest sample_verify
      sample_encode 306000 "''A''" "''s1''" "J_str ''Polaris''" ?self]
    submitStar_expiry_then_signature_then_append[OF issued in_time, of sample_digest sample_verify
      sample_encode 304000 "''A''" "''s1''" "J_str ''Polaris''" ?self]
    accepted valid payload
  show ?thesis by simp
qed

text \<open>
  C7 (as amended). \<open>getBData()\<close> decodes before it looks at the height. When the body does
  not parse, the promise is rejected with the \<open>SyntaxError\<close> of \<open>JSON.parse\<close>, whatever the
  height; when it parses, the promise is rejected with \<open>Genesis block doesn't contain data.\<close>
  at height 0 and resolves with the decoded payload at every other height.
\<close>

theorem getBData_decodes_then_checks_height:
  "(JSON_parse (hex2ascii (body b)) = None \<longrightarrow>
      getBData hex2ascii JSON_parse b = Rejected SyntaxError)
   \<and> (\<forall>v. JSON_parse (hex2ascii (body b)) = Some v \<longrightarrow>
        (height b = 0 \<longrightarrow>
           getBData hex2ascii JSON_parse b = Rejected (Error ''Genesis block doesn't contain data.''))
        \<and> (height b \<noteq> 0 \<longrightarrow> getBData hex2ascii JSON_parse b = Resolved v))"
  by (simp add: getBData_def Let_def)

theorem getBData_decodes_then_checks_height_witness:
  "getBData sample_hex2ascii sample_JSON_parse
      \<lparr>hash = JNull, height = 1, body = sample_encode star_B, time = JNum 0,
         previousBlockHash = JNull\<rparr> = Resolved star_B
   \<and> getBData sample_hex2ascii sample_JSON_parse
      \<lparr>hash = JNull, height = 0, body = sample_encode genesis_data, time = JNum 0,
         previousBlockHash = JNull\<rparr> = Rejected (Error ''Genesis block doesn't contain data.'')
   \<and> getBData sample_hex2ascii sample_JSON_parse
      \<lparr>hash = JNull, height = 1, body = ''7b'', time = JNum 0,
         previousBlockHash = JNull\<rparr> = Rejected SyntaxError"
proof -
  have star: "sample_JSON_parse (sample_hex2ascii (sample_encode star_B)) = Some star_B"
    by code_simp
  have genesis: "sample_JSON_parse (sample_hex2ascii (sample_encode genesis_data))
                 = Some genesis_data"
    by code_simp
  have broken: "sample_JSON_parse (sample_hex2ascii ''7b'') = None"
    by code_simp
  from getBData_decodes_then_checks_height[of sample_JSON_parse sample_hex2ascii
      "\<lparr>hash = JNull, height = 1, body = sample_encode star_B, time = JNum 0,
         previousBlockHash = JNull\<rparr>"]
    getBData_decodes_then_checks_height[of sample_JSON_parse sample_hex2ascii
      "\<lparr>hash = JNull, height = 0, body = sample_encode genesis_data, time = JNum 0,
         previousBlockHash = JNull\<rparr>"]
    getBData_decodes_then_checks_height[of sample_JSON_parse sample_hex2ascii
      "\<lparr>hash = JNull, height = 1, body = ''7b'', time = JNum 0,
         previousBlockHash = JNull\<rparr>"]
    star genesis broken
  show ?thesis by simp
qed

text \<open>A block at height 0 whose body is the empty string: the promise is rejected with the
  \<open>SyntaxError\<close>, not with the genesis error.\<close>

theorem getBData_genesis_with_broken_body:
  "height \<lparr>hash = JNull, height = 0, body = [], time = JNum 0, previousBlockHash = JNull\<rparr> = 0
   \<and> getBData sample_hex2ascii sample_JSON_parse
        \<lparr>hash = JNull, height = 0, body = [], time = JNum 0, previousBlockHash = JNull\<rparr>
      = Rejected SyntaxError
   \<and> getBData sample_hex2ascii sample_JSON_parse
        \<lparr>hash = JNull, height = 0, body = [], time = JNum 0, previousBlockHash = JNull\<rparr>
      \<noteq> Rejected (Error ''Genesis block doesn't contain data.'')"
proof -
  have "sample_JSON_parse (sample_hex2ascii []) = None"
    by code_simp
  then show ?thesis by (simp add: getBData_def Let_def)
qed

text \<open>
  C8. \<open>validateChain()\<close> always returns: its result is, in chain order, one entry
  \<open>Block <height> is not valid.\<close> for each block on which \<open>validate()\<close> is false, and nothing
  else. The result is empty exactly when every block validates, and it depends on each block
  alone, not on its neighbours: a chain read in reverse order yields the reversed list.
\<close>

theorem validateChain_lists_invalid_blocks:
  "validateChain sha256 c
     = map (\<lambda>b. ''Block '' @ toString (height b) @ '' is not valid.'')
         (filter (\<lambda>b. \<not> validate sha256 b) c)
   \<and> (validateChain sha256 c = []) = list_all (validate sha256) c
   \<and> validateChain sha256 (rev c) = rev (validateChain sha256 c)"
proof -
  have 1: "validateChain sha256 c
     = map (\<lambda>b. ''Block '' @ toString (height b) @ '' is not valid.'')
         (filter (\<lambda>b. \<not> validate sha256 b) c)"
    using validateChain_eq[of sha256 c] by (simp add: invalid_entry_def[abs_def])
  have 2: "(validateChain sha256 c = []) = list_all (validate sha256) c"
    by (simp add: validateChain_eq filter_empty_conv list_all_iff)
  have 3: "validateChain sha256 (rev c) = rev (validateChain sha256 c)"
    by (simp add: validateChain_eq rev_map rev_filter)
  from 1 2 3 show ?thesis by blast
qed

theorem validateChain_lists_invalid_blocks_witness:
  "validateChain sample_digest
     [\<lparr>hash = JStr ''0'', height = 0, body = ''7b7d'', time = JStr ''1'',
        previousBlockHash = JNull\<rparr>,
      \<lparr>hash = JStr ''0'', height = 7, body = ''7b7d'', time = JStr ''2'',
        previousBlockHash = JStr ''5''\<rparr>]
   = [''Block 0 is not valid.'', ''Block 7 is not valid.'']"
proof -
  have "\<not> validate sample_digest \<lparr>hash = JStr ''0'', height = 0, body = ''7b7d'',
           time = JStr ''1'', previousBlockHash = JNull\<rparr>"
    by code_simp
  moreover have "\<not> validate sample_digest \<lparr>hash = JStr ''0'', height = 7, body = ''7b7d'',
           time = JStr ''2'', previousBlockHash = JStr ''5''\<rparr>"
    by code_simp
  moreover have "toString 0 = ''0''" "toString 7 = ''7''"
    by code_simp+
  ultimately show ?thesis
    using validateChain_lists_invalid_blocks[of sample_digest
      "[\<lparr>hash = JStr ''0'', height = 0, body = ''7b7d'', time = JStr ''1'',
          previousBlockHash = JNull\<rparr>,
        \<lparr>hash = JStr ''0'', height = 7, body = ''7b7d'', time = JStr ''2'',
          previousBlockHash = JStr ''5''\<rparr>]"]
    by simp
qed

text \<open>
  C9 (as amended). The \<open>time\<close> of a block sealed by \<open>_addBlock\<close> is a string, not a number:
  for a clock reading of at least 1000 ms it is the decimal numeral of the reading in whole
  seconds (the reading in milliseconds with its last three digits dropped).
\<close>

theorem addBlock_time_is_seconds_string:
  assumes "1000 \<le> now"
  shows "time (last (chain (snd (addBlock sha256 now b self)))) = JStr (toString (now div 1000))
         \<and> \<not> is_number (time (last (chain (snd (addBlock sha256 now b self)))))"
  using addBlock_last_fields[of sha256 now b self] time_string_seconds[OF assms]
  by simp

theorem addBlock_time_is_seconds_string_witness:
  "(1000::int) \<le> 1700000000999
   \<and> time (last (chain (snd (addBlock sample_digest 1700000000999 (new_Block ''7b7d'')
        blank_Blockchain)))) = JStr ''1700000000''"
proof -
  have "toString (1700000000999 div 1000) = ''1700000000''"
    by code_simp
  then show ?thesis
    using addBlock_time_is_seconds_string[of 1700000000999 sample_digest "new_Block ''7b7d''"
        blank_Blockchain]
    by simp
qed

text \<open>The sealed \<open>time\<close> is not an integer: at the clock reading 1700000000999 ms the block
  appended to the empty chain has a \<open>time\<close> for which \<open>typeof\<close> is not \<open>number\<close>.\<close>

theorem addBlock_time_not_a_number:
  "\<not> is_number (time (last (chain (snd (addBlock sample_digest 1700000000999
        (new_Block ''7b7d'') blank_Blockchain)))))"
  using addBlock_last_fields[of sample_digest 1700000000999 "new_Block ''7b7d''" blank_Blockchain]
  by simp

text \<open>
  C10. Whenever the promise of \<open>submitStar\<close> is rejected, the reason is the expired challenge
  or the invalid signature, and the chain object is the one the call started with: no block
  was appended and the height is unchanged.
\<close>

theorem submitStar_rejection_leaves_chain:
  assumes "fst (submitStar sha256 verify encode now now_seal address message signature star self)
           = Rejected r"
  shows "snd (snd (submitStar sha256 verify encode now now_seal address message signature star self))
           = self
         \<and> (r = Message ''5 miutes have passed'' \<or> r = Message ''Error detected with signature'')"
  using assms
  by (auto simp: submitStar_def Let_def split: if_splits option.splits prod.splits promise.splits)

theorem submitStar_rejection_leaves_chain_witness:
  "fst (submitStar sample_digest sample_verify sample_encode 100000 100000
          ''A'' (requestMessageOwnershipVerification 5123 ''A'') ''forged'' (J_str ''Polaris'')
          (new_Blockchain sample_digest sample_encode 1000))
     = Rejected (Message ''Error detected with signature'')
   \<and> snd (snd (submitStar sample_digest sample_verify sample_encode 100000 100000
          ''A'' (requestMessageOwnershipVerification 5123 ''A'') ''forged'' (J_str ''Polaris'')
          (new_Blockchain sample_digest sample_encode 1000)))
     = new_Blockchain sample_digest sample_encode 1000"
proof -
  let ?message = "requestMessageOwnershipVerification 5123 ''A''"
  have issued: "parseInt (index_1 (split_on CHR '':'' ?message)) = Some 5"
    by code_simp
  have current: "parseInt (Some (time_string 100000)) = Some 100"
    by code_simp
  have rejected: "fst (submitStar sample_digest sample_verify sample_encode 100000 100000
          ''A'' ?message ''forged'' (J_str ''Polaris'')
          (new_Blockchain sample_digest sample_encode 1000))
     = Rejected (Message ''Error detected with signature'')"
    using issued current
    by (simp add: submitStar_def Let_def elapsed_gt_300_def sample_verify_def)
  from submitStar_rejection_leaves_chain[OF rejected] rejected show ?thesis by simp
qed

end
